theory Spec2Isabelle
  imports Complex_Main "HOL-Library.AList" "HOL-Library.Multiset"
begin

section \<open>Values of the host language\<close>

text \<open>
  The repository is TypeScript. A string is modelled as a \<^typ>\<open>string\<close>, one \<^typ>\<open>char\<close>
  per code unit; the few non-ASCII characters of the source's literals are written as the
  bytes the source file holds. A number is a \<open>jsnum\<close>: the special values of the
  language are kept (\<open>NaN\<close> and the two infinities, which decide several branches of the
  code), a finite number is an exact rational. Rounding to 64-bit binary floating point is
  not modelled, and negative zero is identified with zero.
\<close>

datatype jsnum = NaN | NegInf | Fin rat | PosInf

definition isNaN :: "jsnum \<Rightarrow> bool" where
  "isNaN x = (x = NaN)"

text \<open>The relational operators; every comparison with \<open>NaN\<close> is false.\<close>

fun js_lt :: "jsnum \<Rightarrow> jsnum \<Rightarrow> bool" where
  "js_lt NaN _ = False"
| "js_lt _ NaN = False"
| "js_lt (Fin a) (Fin b) = (a < b)"
| "js_lt NegInf NegInf = False"
| "js_lt NegInf _ = True"
| "js_lt _ NegInf = False"
| "js_lt PosInf _ = False"
| "js_lt _ PosInf = True"

definition js_gt :: "jsnum \<Rightarrow> jsnum \<Rightarrow> bool" where
  "js_gt a b = js_lt b a"

fun js_neg :: "jsnum \<Rightarrow> jsnum" where
  "js_neg NaN = NaN"
| "js_neg NegInf = PosInf"
| "js_neg PosInf = NegInf"
| "js_neg (Fin a) = Fin (- a)"

fun js_add :: "jsnum \<Rightarrow> jsnum \<Rightarrow> jsnum" where
  "js_add NaN _ = NaN"
| "js_add _ NaN = NaN"
| "js_add (Fin a) (Fin b) = Fin (a + b)"
| "js_add PosInf NegInf = NaN"
| "js_add NegInf PosInf = NaN"
| "js_add PosInf _ = PosInf"
| "js_add _ PosInf = PosInf"
| "js_add NegInf _ = NegInf"
| "js_add _ NegInf = NegInf"

definition js_sub :: "jsnum \<Rightarrow> jsnum \<Rightarrow> jsnum" where
  "js_sub a b = js_add a (js_neg b)"

fun js_mul :: "jsnum \<Rightarrow> jsnum \<Rightarrow> jsnum" where
  "js_mul NaN _ = NaN"
| "js_mul _ NaN = NaN"
| "js_mul (Fin a) (Fin b) = Fin (a * b)"
| "js_mul (Fin a) PosInf = (if a = 0 then NaN else if 0 < a then PosInf else NegInf)"
| "js_mul (Fin a) NegInf = (if a = 0 then NaN else if 0 < a then NegInf else PosInf)"
| "js_mul PosInf (Fin b) = (if b = 0 then NaN else if 0 < b then PosInf else NegInf)"
| "js_mul NegInf (Fin b) = (if b = 0 then NaN else if 0 < b then NegInf else PosInf)"
| "js_mul PosInf PosInf = PosInf"
| "js_mul NegInf NegInf = PosInf"
| "js_mul PosInf NegInf = NegInf"
| "js_mul NegInf PosInf = NegInf"

text \<open>
  Division is only ever applied to counts in this code, so only the quotient of two
  non-negative finite numbers matters; a zero divisor gives \<open>NaN\<close> or an infinity.
\<close>

fun js_div :: "jsnum \<Rightarrow> jsnum \<Rightarrow> jsnum" where
  "js_div (Fin a) (Fin b) =
     (if b = 0 then (if a = 0 then NaN else if 0 < a then PosInf else NegInf)
      else Fin (a / b))"
| "js_div (Fin a) PosInf = Fin 0"
| "js_div (Fin a) NegInf = Fin 0"
| "js_div PosInf (Fin b) = (if 0 \<le> b then PosInf else NegInf)"
| "js_div NegInf (Fin b) = (if 0 \<le> b then NegInf else PosInf)"
| "js_div PosInf PosInf = NaN"
| "js_div PosInf NegInf = NaN"
| "js_div NegInf PosInf = NaN"
| "js_div NegInf NegInf = NaN"
| "js_div NaN _ = NaN"
| "js_div (Fin a) NaN = NaN"
| "js_div PosInf NaN = NaN"
| "js_div NegInf NaN = NaN"

subsection \<open>Strings\<close>

fun starts_with :: "string \<Rightarrow> string \<Rightarrow> bool" where
  "starts_with [] s = True"
| "starts_with (p # ps) [] = False"
| "starts_with (p # ps) (c # cs) = (p = c \<and> starts_with ps cs)"

text \<open>\<open>occurs_in p s\<close>: the literal \<open>p\<close> occurs somewhere in \<open>s\<close>.\<close>

fun occurs_in :: "string \<Rightarrow> string \<Rightarrow> bool" where
  "occurs_in p [] = (p = [])"
| "occurs_in p (c # cs) = (starts_with p (c # cs) \<or> occurs_in p cs)"

definition lower_char :: "char \<Rightarrow> char" where
  "lower_char c =
     (let n = (of_char c :: nat) in if 65 \<le> n \<and> n \<le> 90 then char_of (n + 32) else c)"

text \<open>
  A regular expression that is an alternation of lower-case literals, with the flag
  \<open>i\<close>, tested unanchored: some alternative occurs in the text, letters compared without
  case. (Without the flag \<open>u\<close> only ASCII letters fold onto ASCII letters.)
\<close>

definition test_alternatives_i :: "string list \<Rightarrow> string \<Rightarrow> bool" where
  "test_alternatives_i alts s = list_ex (\<lambda>a. occurs_in a (map lower_char s)) alts"

definition digit_char :: "nat \<Rightarrow> char" where
  "digit_char d = char_of (48 + d)"

function show_nat :: "nat \<Rightarrow> string" where
  "show_nat n = (if n < 10 then [digit_char n] else show_nat (n div 10) @ [digit_char (n mod 10)])"
  by pat_completeness auto
termination
  by (relation "measure id") auto

declare show_nat.simps [simp del]

section \<open>The data model (lib/type)\<close>

text \<open>
  A raw cell is one of the scalars the decoders deliver; \<open>CUndefined\<close> is what reading a
  key that a row does not have returns. A row is an object: its own properties in the
  order \<open>Object.keys\<close> enumerates them, keys distinct. Inherited properties are not
  modelled.
\<close>

datatype cell = CNum jsnum | CStr string | CBool bool | CNull | CUndefined

type_synonym row = "(string \<times> cell) list"

datatype ColumnType = TNumber | TString | TDate

record Summary =
  totalRows :: nat
  totalColumns :: nat
  missingValues :: nat
  numericColumns :: "string list"
  textColumns :: "string list"
  dateColumns :: "string list"

record ParsedData =
  headers :: "string list"
  rows :: "row list"
  rowCount :: nat
  columnTypes :: "(string \<times> ColumnType) list"
  summary :: Summary

datatype PatternType = Trend | Correlation | Outlier | Distribution | Comparison

datatype VisualizationType = Line | Bar | Scatter | Area | Pie | Histogram

record Visualization =
  v_type :: VisualizationType
  v_config :: "(string \<times> string) list"

record Pattern =
  p_type :: PatternType
  p_description :: string
  p_confidence :: int
  p_dataPoints :: "cell list option"
  p_visualization :: "Visualization option"

record Metadata =
  tokensUsed :: "nat option"
  processingTime :: "int option"
  modelUsed :: "string option"

record AIInsight =
  i_summary :: string
  i_confidence :: int
  patterns :: "Pattern list"
  suggestedViz :: "VisualizationType option"
  warnings :: "string list option"
  metadata :: Metadata

section \<open>Coercions and patterns of the host language\<close>

subsection \<open>Number(value)\<close>

text \<open>
  White space and line terminators, as far as a \<^typ>\<open>char\<close> reaches: tab, line feed,
  vertical tab, form feed, carriage return, space, no-break space.
\<close>

definition is_space :: "char \<Rightarrow> bool" where
  "is_space c = ((of_char c :: nat) \<in> {9, 10, 11, 12, 13, 32, 160})"

definition trim :: "string \<Rightarrow> string" where
  "trim s = rev (dropWhile is_space (rev (dropWhile is_space s)))"

definition is_digit :: "char \<Rightarrow> bool" where
  "is_digit c = (48 \<le> (of_char c :: nat) \<and> (of_char c :: nat) \<le> 57)"

text \<open>The value of a digit in a radix up to 16, if it is one.\<close>

definition digit_value :: "nat \<Rightarrow> char \<Rightarrow> nat option" where
  "digit_value radix c =
     (let n = (of_char c :: nat);
          v = (if 48 \<le> n \<and> n \<le> 57 then Some (n - 48)
               else if 97 \<le> n \<and> n \<le> 102 then Some (n - 87)
               else if 65 \<le> n \<and> n \<le> 70 then Some (n - 55)
               else None)
      in case v of None \<Rightarrow> None | Some d \<Rightarrow> if d < radix then Some d else None)"

text \<open>A run of digits of the radix, read as a numeral; nothing else may follow.\<close>

fun read_digits :: "nat \<Rightarrow> nat \<Rightarrow> string \<Rightarrow> nat option" where
  "read_digits radix acc [] = Some acc"
| "read_digits radix acc (c # cs) =
     (case digit_value radix c of
        None \<Rightarrow> None
      | Some d \<Rightarrow> read_digits radix (acc * radix + d) cs)"

definition numeral_of :: "nat \<Rightarrow> string \<Rightarrow> nat option" where
  "numeral_of radix ds = (if ds = [] then None else read_digits radix 0 ds)"

text \<open>The exponent part: \<open>e\<close> or \<open>E\<close>, an optional sign, digits.\<close>

definition exponent_part :: "string \<Rightarrow> int option" where
  "exponent_part s =
     (case s of
        [] \<Rightarrow> Some 0
      | c # cs \<Rightarrow>
          if c = CHR ''e'' \<or> c = CHR ''E'' then
            (case cs of
               [] \<Rightarrow> None
             | d # ds \<Rightarrow>
                 if d = CHR ''-'' then map_option (\<lambda>n. - int n) (numeral_of 10 ds)
                 else if d = CHR ''+'' then map_option int (numeral_of 10 ds)
                 else map_option int (numeral_of 10 cs))
          else None)"

definition scale10 :: "rat \<Rightarrow> int \<Rightarrow> rat" where
  "scale10 x e = (if 0 \<le> e then x * 10 ^ nat e else x / 10 ^ nat (- e))"

text \<open>The numeral a run of decimal digits denotes, 0 for the empty run.\<close>

definition decimal_value :: "string \<Rightarrow> nat" where
  "decimal_value ds = (case read_digits 10 0 ds of None \<Rightarrow> 0 | Some n \<Rightarrow> n)"

text \<open>
  An unsigned decimal literal: \<open>Infinity\<close>, or digits with an optional fraction and an
  optional exponent, at least one digit before or after the point.
\<close>

definition unsigned_decimal :: "string \<Rightarrow> jsnum" where
  "unsigned_decimal s =
     (if s = ''Infinity'' then PosInf
      else
        let ip = takeWhile is_digit s;
            r1 = dropWhile is_digit s;
            dot = (r1 \<noteq> [] \<and> hd r1 = CHR ''.'');
            fp = (if dot then takeWhile is_digit (tl r1) else []);
            r2 = (if dot then dropWhile is_digit (tl r1) else r1)
        in if ip = [] \<and> fp = [] then NaN
           else
             (case exponent_part r2 of
                None \<Rightarrow> NaN
              | Some e \<Rightarrow>
                  Fin (scale10
                         (of_nat (decimal_value ip)
                            + of_nat (decimal_value fp) / 10 ^ length fp) e)))"

text \<open>A binary, octal or hexadecimal integer literal; these take no sign.\<close>

definition non_decimal :: "string \<Rightarrow> jsnum option" where
  "non_decimal s =
     (case s of
        z # x # ds \<Rightarrow>
          if z = CHR ''0'' then
            (let radix = (if x = CHR ''x'' \<or> x = CHR ''X'' then Some 16
                          else if x = CHR ''o'' \<or> x = CHR ''O'' then Some 8
                          else if x = CHR ''b'' \<or> x = CHR ''B'' then Some (2::nat)
                          else None)
             in case radix of
                  None \<Rightarrow> None
                | Some r \<Rightarrow>
                    Some (case numeral_of r ds of None \<Rightarrow> NaN | Some n \<Rightarrow> Fin (of_nat n)))
          else None
      | _ \<Rightarrow> None)"

text \<open>
  The number a string converts to: white space around the literal is dropped, the empty
  string is 0, anything that is not a numeric literal is \<open>NaN\<close>.
\<close>

definition string_to_number :: "string \<Rightarrow> jsnum" where
  "string_to_number str =
     (let s = trim str in
      if s = [] then Fin 0
      else
        (case non_decimal s of
           Some v \<Rightarrow> v
         | None \<Rightarrow>
             if hd s = CHR ''-'' then js_neg (unsigned_decimal (tl s))
             else if hd s = CHR ''+'' then unsigned_decimal (tl s)
             else unsigned_decimal s))"

fun Number :: "cell \<Rightarrow> jsnum" where
  "Number (CNum n) = n"
| "Number (CStr s) = string_to_number s"
| "Number (CBool b) = (if b then Fin 1 else Fin 0)"
| "Number CNull = Fin 0"
| "Number CUndefined = NaN"

subsection \<open>Number.prototype.toFixed(1)\<close>


subsection \<open>Regular expressions over digits and literal characters\<close>

datatype atom = Digit | Lit char

fun atom_matches :: "atom \<Rightarrow> char \<Rightarrow> bool" where
  "atom_matches Digit c = is_digit c"
| "atom_matches (Lit l) c = (l = c)"

text \<open>
  A sequence of atoms, each repeated between \<open>lo\<close> and \<open>hi\<close> times, matches at the
  start of the text if some choice of the repetition counts does.
\<close>

fun match_here :: "(atom \<times> nat \<times> nat) list \<Rightarrow> string \<Rightarrow> bool" where
  "match_here [] s = True"
| "match_here ((a, lo, hi) # ps) s =
     list_ex (\<lambda>k. k \<le> length s \<and> list_all (atom_matches a) (take k s)
                  \<and> match_here ps (drop k s)) [lo..<Suc hi]"

fun suffixes :: "string \<Rightarrow> string list" where
  "suffixes [] = [[]]"
| "suffixes (c # cs) = (c # cs) # suffixes cs"

text \<open>\<open>regex.test(s)\<close> for an alternation of such sequences, unanchored.\<close>

definition regex_test :: "(atom \<times> nat \<times> nat) list list \<Rightarrow> string \<Rightarrow> bool" where
  "regex_test alts s = list_ex (\<lambda>t. list_ex (\<lambda>alt. match_here alt t) alts) (suffixes s)"

section \<open>Ingestion and quality assessment (lib/dataParser)\<close>

datatype exn = Error string | SyntaxError | TypeError

text \<open>\<open>row[header]\<close>: the value of the key, \<open>undefined\<close> when the row has no such key.\<close>

definition get_cell :: "row \<Rightarrow> string \<Rightarrow> cell" where
  "get_cell r header = (case map_of r header of None \<Rightarrow> CUndefined | Some v \<Rightarrow> v)"

text \<open>\<open>v == null\<close> holds of \<open>null\<close> and of \<open>undefined\<close>, and of nothing else.\<close>

definition loosely_null :: "cell \<Rightarrow> bool" where
  "loosely_null v = (v = CNull \<or> v = CUndefined)"

subsection \<open>isValidDate\<close>

text \<open>
  The date pattern of the source: four digits, a hyphen, two digits, a hyphen, two
  digits; or one or two digits, a slash, one or two digits, a slash, two to four digits.
\<close>

definition date_format :: "(atom \<times> nat \<times> nat) list list" where
  "date_format =
     [[(Digit, 4, 4), (Lit CHR ''-'', 1, 1), (Digit, 2, 2), (Lit CHR ''-'', 1, 1), (Digit, 2, 2)],
      [(Digit, 1, 2), (Lit CHR ''/'', 1, 1), (Digit, 1, 2), (Lit CHR ''/'', 1, 1), (Digit, 2, 4)]]"

text \<open>
  Which strings \<open>new Date(value)\<close> turns into a valid date is left to the implementation
  of the language for all but one format, so it is a parameter: \<open>parses s\<close> holds when
  the time value of \<open>new Date(s)\<close> is not \<open>NaN\<close>.
\<close>

fun isValidDate :: "(string \<Rightarrow> bool) \<Rightarrow> cell \<Rightarrow> bool" where
  "isValidDate parses (CStr s) = (parses s \<and> regex_test date_format s)"
| "isValidDate parses _ = False"

subsection \<open>analyzeData\<close>

definition sampleValues :: "row list \<Rightarrow> string \<Rightarrow> cell list" where
  "sampleValues rs header =
     filter (\<lambda>v. \<not> loosely_null v) (map (\<lambda>r. get_cell r header) (take 10 rs))"

text \<open>\<open>typeof v === "number" || !isNaN(Number(v))\<close>\<close>

definition numeric_like :: "cell \<Rightarrow> bool" where
  "numeric_like v = ((case v of CNum _ \<Rightarrow> True | _ \<Rightarrow> False) \<or> \<not> isNaN (Number v))"

definition detect_type :: "(string \<Rightarrow> bool) \<Rightarrow> row list \<Rightarrow> string \<Rightarrow> ColumnType" where
  "detect_type parses rs header =
     (let sample = sampleValues rs header in
      if list_all numeric_like sample then TNumber
      else if list_ex (isValidDate parses) sample then TDate
      else TString)"

text \<open>The loop over the headers that fills \<open>columnTypes\<close>, an object keyed by header.\<close>

definition detect_types ::
  "(string \<Rightarrow> bool) \<Rightarrow> row list \<Rightarrow> string list \<Rightarrow> (string \<times> ColumnType) list" where
  "detect_types parses rs hs =
     foldl (\<lambda>types header. AList.update header (detect_type parses rs header) types) [] hs"

text \<open>The two nested loops that count the missing cells.\<close>

definition is_missing :: "cell \<Rightarrow> bool" where
  "is_missing v = (loosely_null v \<or> v = CStr [])"

definition count_missing :: "row list \<Rightarrow> string list \<Rightarrow> nat" where
  "count_missing rs hs =
     foldl (\<lambda>n r. foldl (\<lambda>n header. if is_missing (get_cell r header) then n + 1 else n) n hs)
       0 rs"

definition analyzeData :: "(string \<Rightarrow> bool) \<Rightarrow> row list \<Rightarrow> exn + ParsedData" where
  "analyzeData parses rs =
     (if length rs = 0 then Inl (Error ''No data found'')
      else
        let hs = map fst (rs ! 0);
            types = detect_types parses rs hs;
            missing = count_missing rs hs
        in Inr \<lparr>headers = hs,
                rows = rs,
                rowCount = length rs,
                columnTypes = types,
                summary =
                  \<lparr>totalRows = length rs,
                   totalColumns = length hs,
                   missingValues = missing,
                   numericColumns = filter (\<lambda>h. map_of types h = Some TNumber) hs,
                   textColumns = filter (\<lambda>h. map_of types h = Some TString) hs,
                   dateColumns = filter (\<lambda>h. map_of types h = Some TDate) hs\<rparr>\<rparr>)"

subsection \<open>detectQualityIssues\<close>

datatype IssueType = IssueMissing | IssueOutlier | IssueDuplicate | IssueInvalid

datatype Severity = Low | Medium | High





text \<open>
  \<open>sort((a, b) => a - b)\<close> on numbers none of which is \<open>NaN\<close>: a stable insertion
  sort, \<open>x\<close> going before the first element the comparator puts it strictly before.
\<close>

fun js_insort :: "jsnum \<Rightarrow> jsnum list \<Rightarrow> jsnum list" where
  "js_insort x [] = [x]"
| "js_insort x (y # ys) =
     (if js_lt (js_sub x y) (Fin 0) then x # y # ys else y # js_insort x ys)"

definition js_sort :: "jsnum list \<Rightarrow> jsnum list" where
  "js_sort xs = foldl (\<lambda>acc x. js_insort x acc) [] xs"

text \<open>
  Reading an array element as a number: past the end the language gives \<open>undefined\<close>,
  which every arithmetic operation turns into \<open>NaN\<close>.
\<close>

definition element :: "jsnum list \<Rightarrow> nat \<Rightarrow> jsnum" where
  "element xs i = (if i < length xs then xs ! i else NaN)"

definition floor_index :: "rat \<Rightarrow> nat" where
  "floor_index x = nat \<lfloor>x\<rfloor>"


text \<open>The outliers of the values of a column, by the interquartile range.\<close>

definition outliers :: "jsnum list \<Rightarrow> jsnum list" where
  "outliers vals =
     (let sorted = js_sort vals;
          q1 = element sorted (floor_index (of_nat (length sorted) * (1 / 4)));
          q3 = element sorted (floor_index (of_nat (length sorted) * (3 / 4)));
          iqr = js_sub q3 q1;
          lowerBound = js_sub q1 (js_mul (Fin (3 / 2)) iqr);
          upperBound = js_add q3 (js_mul (Fin (3 / 2)) iqr)
      in filter (\<lambda>v. js_lt v lowerBound \<or> js_gt v upperBound) vals)"



subsection \<open>formatDataForAI\<close>

record SchemaColumn =
  c_name :: string
  c_type :: "ColumnType option"

record Schema =
  s_columns :: "SchemaColumn list"
  s_rowCount :: nat
  s_summary :: Summary

record Digest =
  schema :: Schema
  sampleRows :: "row list"

text \<open>
  The object handed to \<open>JSON.stringify\<close>. \<open>slice(0, 5)\<close> is \<open>take 5\<close>, and
  \<open>slice(-5)\<close> drops all but the last five.
\<close>

definition context_digest :: "ParsedData \<Rightarrow> Digest" where
  "context_digest data =
     \<lparr>schema =
        \<lparr>s_columns =
           map (\<lambda>h. \<lparr>c_name = h, c_type = map_of (columnTypes data) h\<rparr>) (headers data),
         s_rowCount = rowCount data,
         s_summary = summary data\<rparr>,
      sampleRows =
        take 5 (rows data)
          @ (if length (rows data) > 10 then drop (length (rows data) - 5) (rows data)
             else [])\<rparr>"

text \<open>
  The serialization itself is the language's \<open>JSON.stringify\<close> with an indentation of
  two, a parameter here. The function is defined twice in the repository, in the same
  words.
\<close>

definition formatDataForAI :: "(Digest \<Rightarrow> string) \<Rightarrow> ParsedData \<Rightarrow> string" where
  "formatDataForAI stringify data = stringify (context_digest data)"

section \<open>The heuristic insight engine (validation/aiServiceGemini)\<close>

subsection \<open>Intent classification\<close>

definition isTrend :: "string \<Rightarrow> bool" where
  "isTrend question =
     test_alternatives_i
       [''trend'', ''over time'', ''change'', ''growth'', ''increase'', ''decrease''] question"

definition isCorrelation :: "string \<Rightarrow> bool" where
  "isCorrelation question =
     test_alternatives_i
       [''correlat'', ''relationship'', ''connect'', ''affect'', ''impact''] question"

definition isComparison :: "string \<Rightarrow> bool" where
  "isComparison question =
     test_alternatives_i [''compar'', ''versus'', ''vs'', ''difference'', ''between''] question"

definition isDistribution :: "string \<Rightarrow> bool" where
  "isDistribution question =
     test_alternatives_i
       [''distribut'', ''spread'', ''range'', ''average'', ''mean'', ''median''] question"

subsection \<open>getMockResponse\<close>

text \<open>
  The two adjustments of the confidence, each with its warning. The state the source
  mutates (\<open>confidence\<close>, \<open>warnings\<close>) is passed as a pair.
\<close>

definition adjust_sample :: "ParsedData \<Rightarrow> int \<times> string list \<Rightarrow> int \<times> string list" where
  "adjust_sample data st =
     (case st of (confidence, warns) \<Rightarrow>
        if rowCount data < 20
        then (confidence - 20, warns @ [''Small sample size may affect reliability''])
        else (confidence, warns))"

definition adjust_missing :: "ParsedData \<Rightarrow> int \<times> string list \<Rightarrow> int \<times> string list" where
  "adjust_missing data st =
     (case st of (confidence, warns) \<Rightarrow>
        if js_gt (Fin (of_nat (missingValues (summary data))))
             (js_mul (js_mul (Fin (of_nat (rowCount data))) (Fin (of_nat (length (headers data)))))
                (Fin (1 / 10)))
        then (confidence - 15, warns @ [''High percentage of missing values detected''])
        else (confidence, warns))"

definition quality_adjusted :: "ParsedData \<Rightarrow> int \<times> string list" where
  "quality_adjusted data = adjust_missing data (adjust_sample data (75, []))"

text \<open>The pattern, the summary text and the warnings of the branch taken.\<close>

definition select_pattern ::
  "string \<Rightarrow> ParsedData \<Rightarrow> int \<times> string list \<Rightarrow> string \<times> Pattern list \<times> string list" where
  "select_pattern question data st =
     (case st of (confidence, warns) \<Rightarrow>
      let nc = numericColumns (summary data) in
      if isTrend question \<and> length nc > 0 then
        (let column = nc ! 0 in
         (''Based on the analysis of '' @ show_nat (rowCount data)
            @ '' data points, there's a noticeable upward trend in '' @ column
            @ ''. The pattern suggests consistent growth with minor variations.'',
          [\<lparr>p_type = Trend,
            p_description = column @ '' shows an upward trend with some fluctuations'',
            p_confidence = confidence,
            p_dataPoints = None,
            p_visualization =
              Some \<lparr>v_type = Line, v_config = [(''xAxis'', ''index''), (''yAxis'', column)]\<rparr>\<rparr>],
          warns))
      else if isCorrelation question \<and> length nc \<ge> 2 then
        (let col1 = nc ! 0; col2 = nc ! 1 in
         (''Analysis reveals a moderate positive correlation (r ''
            @ [CHR 0xC3, CHR 0xA2, CHR 0xE2, CHR 0x80, CHR 0xB0, CHR 0xCB, CHR 0x86]
            @ '' 0.65) between '' @ col1 @ '' and '' @ col2 @ ''. As '' @ col1
            @ '' increases, '' @ col2
            @ '' tends to increase as well, though the relationship isn't perfectly linear.'',
          [\<lparr>p_type = Correlation,
            p_description =
              ''Moderate positive correlation detected between '' @ col1 @ '' and '' @ col2,
            p_confidence = confidence - 10,
            p_dataPoints = None,
            p_visualization =
              Some \<lparr>v_type = Scatter, v_config = [(''xAxis'', col1), (''yAxis'', col2)]\<rparr>\<rparr>],
          warns))
      else if isDistribution question \<and> length nc > 0 then
        (let column = nc ! 0 in
         (''The distribution of '' @ column
            @ '' appears roughly normal with most values concentrated around the mean. ''
            @ ''There are a few outliers on both ends that warrant closer inspection.'',
          [\<lparr>p_type = Distribution,
            p_description = column @ '' follows a roughly normal distribution'',
            p_confidence = confidence,
            p_dataPoints = None,
            p_visualization =
              Some \<lparr>v_type = Histogram, v_config = [(''column'', column)]\<rparr>\<rparr>],
          warns))
      else
        (''Based on '' @ show_nat (rowCount data) @ '' records across ''
           @ show_nat (length (headers data))
           @ '' columns, the data shows interesting patterns. '' @ show_nat (length nc)
           @ '' numeric columns are available for quantitative analysis.'',
         [\<lparr>p_type = Comparison,
           p_description = ''General data overview available'',
           p_confidence = confidence - 20,
           p_dataPoints = None,
           p_visualization = None\<rparr>],
         warns @ [''Question could be more specific for better insights'']))"

text \<open>\<open>patterns[0]?.visualization?.type\<close>\<close>

definition first_visualization_type :: "Pattern list \<Rightarrow> VisualizationType option" where
  "first_visualization_type ps =
     (case ps of [] \<Rightarrow> None
      | p # _ \<Rightarrow> (case p_visualization p of None \<Rightarrow> None | Some v \<Rightarrow> Some (v_type v)))"

text \<open>
  The body shared by \<open>getMockResponse\<close> and by the earlier \<open>queryAI\<close> that was
  only a mock: the two differ in the model identifier alone. The simulated delay of
  1500 ms has no effect on the value returned; the variables \<open>lowerQuestion\<close> and
  \<open>isComparison\<close> are computed and never read.
\<close>

definition mock_insight :: "string \<Rightarrow> string \<Rightarrow> ParsedData \<Rightarrow> AIInsight" where
  "mock_insight model question data =
     (case quality_adjusted data of (confidence, warns) \<Rightarrow>
      case select_pattern question data (confidence, warns) of (summ, pats, warns') \<Rightarrow>
        \<lparr>i_summary = summ,
         i_confidence = confidence,
         patterns = pats,
         suggestedViz = first_visualization_type pats,
         warnings = (if length warns' > 0 then Some warns' else None),
         metadata = \<lparr>tokensUsed = Some 850, processingTime = Some 1500,
                     modelUsed = Some model\<rparr>\<rparr>)"

definition getMockResponse :: "string \<Rightarrow> ParsedData \<Rightarrow> AIInsight" where
  "getMockResponse question data = mock_insight ''mock-response'' question data"

text \<open>The earlier service, which had no remote provider at all.\<close>

definition queryAI_mock :: "string \<Rightarrow> ParsedData \<Rightarrow> AIInsight" where
  "queryAI_mock question data = mock_insight ''mock-gpt-4'' question data"

subsection \<open>The prompt\<close>

definition lines :: "string list \<Rightarrow> string" where
  "lines ls = (case ls of [] \<Rightarrow> [] | l # rest \<Rightarrow> foldl (\<lambda>acc x. acc @ [CHR 0x0A] @ x) l rest)"

definition prompt_head :: "string list" where
  "prompt_head =
     [''You are an expert data analyst. Analyze this dataset and answer the following question with high precision.'',
      '''',
      ''Dataset Context:'',
      '''']"

definition prompt_middle :: "string list" where
  "prompt_middle =
     ['''',
      '''',
      ''User Question: '']"

definition prompt_tail :: "string list" where
  "prompt_tail =
     ['''',
      '''',
      ''IMPORTANT: Respond ONLY with valid JSON in this exact format (no markdown, no explanations):'',
      ''{'',
      ''  \"summary\": \"A clear 2-3 sentence summary of your findings with specific numbers\",'',
      ''  \"confidence\": 85,'',
      ''  \"patterns\": ['',
      ''    {'',
      ''      \"type\": \"trend\",'',
      ''      \"description\": \"Specific finding with data\",'',
      ''      \"confidence\": 85,'',
      ''      \"visualization\": {'',
      ''        \"type\": \"line\",'',
      ''        \"config\": {\"xAxis\": \"column_name\", \"yAxis\": \"column_name\"}'',
      ''      }'',
      ''    }'',
      ''  ],'',
      ''  \"warnings\": [\"Any data quality concerns\"]'',
      ''}'',
      '''',
      ''Rules:'',
      ''1. Use pattern types: \"trend\", \"correlation\", \"outlier\", \"distribution\", or \"comparison\"'',
      ''2. Use visualization types: \"line\", \"bar\", \"scatter\", \"area\", \"pie\", or \"histogram\"'',
      ''3. Set confidence 80-100 for strong patterns, 60-79 for moderate, <60 for weak'',
      ''4. Reduce confidence by 20 for small samples (<20 rows)'',
      ''5. Include specific numbers and column names in your analysis'',
      ''6. Be specific with xAxis and yAxis in visualization config'',
      ''7. Return ONLY valid JSON, no markdown formatting'']"

definition generatePrompt :: "string \<Rightarrow> string \<Rightarrow> string" where
  "generatePrompt question dataContext =
     lines prompt_head @ dataContext @ lines prompt_middle @ question @ lines prompt_tail"

subsection \<open>The remote provider and the response it sends\<close>

text \<open>What \<open>JSON.parse\<close> returns. An object lists its properties in their order.\<close>

datatype json =
  JNull | JBool bool | JNum jsnum | JStr string | JArr "json list"
  | JObj "(string \<times> json) list"

text \<open>
  The object spread \<open>{...v}\<close>: the own enumerable properties of \<open>v\<close>. An array and a
  string spread into their indices, \<open>null\<close>, \<open>undefined\<close> (\<open>None\<close> here), a number and
  a boolean into nothing.
\<close>

fun spread :: "json option \<Rightarrow> (string \<times> json) list" where
  "spread (Some (JObj kvs)) = kvs"
| "spread (Some (JArr xs)) = zip (map show_nat [0..<length xs]) xs"
| "spread (Some (JStr s)) = zip (map show_nat [0..<length s]) (map (\<lambda>c. JStr [c]) s)"
| "spread _ = []"

text \<open>
  \<open>parsed.metadata\<close>: reading a property of \<open>null\<close> throws a \<open>TypeError\<close>; of anything
  that is not an object the property is \<open>undefined\<close>.
\<close>

fun metadata_of :: "json \<Rightarrow> exn + json option" where
  "metadata_of JNull = Inl TypeError"
| "metadata_of (JObj kvs) = Inr (map_of kvs ''metadata'')"
| "metadata_of _ = Inr None"

text \<open>
  \<open>text.replace(/```json\n?|\n?```/g, "")\<close>: scanning from the left, every opening fence
  with the line feed after it, and every closing fence with the line feed before it, is
  removed.
\<close>

function strip_fences :: "string \<Rightarrow> string" where
  "strip_fences [] = []"
| "strip_fences (c # cs) =
     (if starts_with ''```json'' (c # cs) then
        (if starts_with [CHR 0x0A] (drop 7 (c # cs)) then strip_fences (drop 8 (c # cs))
         else strip_fences (drop 7 (c # cs)))
      else if starts_with (CHR 0x0A # ''```'') (c # cs) then strip_fences (drop 4 (c # cs))
      else if starts_with ''```'' (c # cs) then strip_fences (drop 3 (c # cs))
      else c # strip_fences cs)"
  by pat_completeness auto
termination
  by (relation "measure length") auto

text \<open>
  What the code needs of its surroundings: whether it runs in a browser, the API key of
  the environment, the dynamic import of the SDK (absent when the import fails) and with
  it the constructor of the client, which may throw; the client itself, from the model
  name and the prompt to the text of the response or the error thrown on the way; the two
  readings of the clock; and the language's \<open>JSON.parse\<close> (\<open>None\<close> for a syntax error)
  and \<open>JSON.stringify\<close>.
\<close>

record Runtime =
  has_window :: bool
  api_key :: "string option"
  import_sdk :: "(string \<Rightarrow> exn + (string \<Rightarrow> string \<Rightarrow> exn + string)) option"
  now_start :: int
  now_end :: int
  json_parse :: "string \<Rightarrow> json option"
  json_stringify :: "Digest \<Rightarrow> string"

definition getGeminiAI :: "Runtime \<Rightarrow> (string \<Rightarrow> string \<Rightarrow> exn + string) option" where
  "getGeminiAI rt =
     (if \<not> has_window rt then None
      else
        (case api_key rt of
           None \<Rightarrow> None
         | Some key \<Rightarrow>
             if key = [] then None
             else
               (case import_sdk rt of
                  None \<Rightarrow> None
                | Some GoogleGenerativeAI \<Rightarrow>
                    (case GoogleGenerativeAI key of
                       Inl error \<Rightarrow> None
                     | Inr client \<Rightarrow> Some client))))"

subsection \<open>queryAI\<close>

datatype Response = Insight AIInsight | Parsed "(string \<times> json) list"

definition try_catch :: "exn + 'a \<Rightarrow> (exn \<Rightarrow> exn + 'a) \<Rightarrow> exn + 'a" where
  "try_catch body handler = (case body of Inl e \<Rightarrow> handler e | Inr v \<Rightarrow> Inr v)"

definition and_then :: "exn + 'a \<Rightarrow> ('a \<Rightarrow> exn + 'b) \<Rightarrow> exn + 'b" where
  "and_then body rest = (case body of Inl e \<Rightarrow> Inl e | Inr v \<Rightarrow> rest v)"

text \<open>The inner \<open>try\<close> block: clean the text, parse it, overwrite the metadata.\<close>

definition parse_response :: "Runtime \<Rightarrow> string \<Rightarrow> exn + Response" where
  "parse_response rt text =
     (let cleanText = trim (strip_fences text) in
      case json_parse rt cleanText of
        None \<Rightarrow> Inl SyntaxError
      | Some parsed \<Rightarrow>
          and_then (metadata_of parsed)
            (\<lambda>md. Inr (Parsed
               (AList.update ''metadata''
                  (JObj (AList.update ''modelUsed'' (JStr ''gemini-1.5-pro'')
                           (AList.update ''processingTime''
                              (JNum (Fin (of_int (now_end rt - now_start rt))))
                              (spread md))))
                  (spread (Some parsed))))))"

text \<open>The inner \<open>catch\<close> block: what can be shown of a response that did not parse.\<close>

definition raw_output_insight :: "Runtime \<Rightarrow> string \<Rightarrow> AIInsight" where
  "raw_output_insight rt text =
     \<lparr>i_summary = take 500 text,
      i_confidence = 50,
      patterns = [],
      suggestedViz = None,
      warnings = Some [''Unable to parse structured response. Showing raw AI output.''],
      metadata = \<lparr>tokensUsed = None,
                  processingTime = Some (now_end rt - now_start rt),
                  modelUsed = Some ''gemini-1.5-pro''\<rparr>\<rparr>"

text \<open>\<open>Inl\<close> would be a rejected promise.\<close>

definition queryAI :: "Runtime \<Rightarrow> string \<Rightarrow> ParsedData \<Rightarrow> exn + Response" where
  "queryAI rt question data =
     (case getGeminiAI rt of
        None \<Rightarrow> Inr (Insight (getMockResponse question data))
      | Some genAI \<Rightarrow>
          try_catch
            (and_then
               (genAI ''gemini-1.5-pro''
                  (generatePrompt question (formatDataForAI (json_stringify rt) data)))
               (\<lambda>text.
                  try_catch (parse_response rt text)
                    (\<lambda>parseError. Inr (Insight (raw_output_insight rt text)))))
            (\<lambda>error. Inr (Insight (getMockResponse question data))))"

text \<open>The warnings of an insight, none when the field is absent.\<close>

definition warnings_list :: "AIInsight \<Rightarrow> string list" where
  "warnings_list r = (case warnings r of None \<Rightarrow> [] | Some ws \<Rightarrow> ws)"

text \<open>
  The threshold of the missing-value adjustment as the specification words it, in exact
  arithmetic: \<open>missingValues > rowCount \<times> headerCount \<times> 0.10\<close>.
\<close>

definition over_tenth_missing :: "ParsedData \<Rightarrow> bool" where
  "over_tenth_missing data =
     ((of_nat (rowCount data) * of_nat (length (headers data)) * (1 / 10) :: rat)
        < of_nat (missingValues (summary data)))"

text \<open>The base confidence as the specification words it.\<close>

definition spec_base_confidence :: "ParsedData \<Rightarrow> int" where
  "spec_base_confidence data =
     75 - (if rowCount data < 20 then 20 else 0) - (if over_tenth_missing data then 15 else 0)"

text \<open>What the branch taken subtracts from the base confidence for its pattern.\<close>

definition branch_delta :: "string \<Rightarrow> ParsedData \<Rightarrow> int" where
  "branch_delta question data =
     (let nc = numericColumns (summary data) in
      if isTrend question \<and> 0 < length nc then 0
      else if isCorrelation question \<and> 2 \<le> length nc then 10
      else if isDistribution question \<and> 0 < length nc then 0
      else 20)"

section \<open>The rules of the quality assessor as the specification words them\<close>












text \<open>The ascending order of the numbers that are not \<open>NaN\<close>.\<close>

definition js_le :: "jsnum \<Rightarrow> jsnum \<Rightarrow> bool" where
  "js_le a b = (\<not> js_lt b a)"

section \<open>The schema inference as the specification words it\<close>







section \<open>Concrete datasets\<close>

text \<open>Fifteen complete rows of one numeric column.\<close>

definition demo15 :: ParsedData where
  "demo15 =
     \<lparr>headers = [''x''], rows = replicate 15 [(''x'', CNum (Fin 1))], rowCount = 15,
      columnTypes = [(''x'', TNumber)],
      summary = \<lparr>totalRows = 15, totalColumns = 1, missingValues = 0,
                  numericColumns = [''x''], textColumns = [], dateColumns = []\<rparr>\<rparr>"

text \<open>Thirty rows of two numeric columns, seven cells of the sixty missing.\<close>

definition demo30 :: ParsedData where
  "demo30 =
     \<lparr>headers = [''price'', ''sales''],
      rows = replicate 7 [(''price'', CNull), (''sales'', CNum (Fin 2))]
               @ replicate 23 [(''price'', CNum (Fin 1)), (''sales'', CNum (Fin 2))],
      rowCount = 30,
      columnTypes = [(''price'', TNumber), (''sales'', TNumber)],
      summary = \<lparr>totalRows = 30, totalColumns = 2, missingValues = 7,
                  numericColumns = [''price'', ''sales''], textColumns = [],
                  dateColumns = []\<rparr>\<rparr>"

text \<open>A hundred rows of two columns, twelve cells of the two hundred missing.\<close>

definition demo100 :: ParsedData where
  "demo100 =
     \<lparr>headers = [''a'', ''b''],
      rows = replicate 12 [(''a'', CNull), (''b'', CNum (Fin 1))]
               @ replicate 88 [(''a'', CNum (Fin 1)), (''b'', CNum (Fin 1))],
      rowCount = 100,
      columnTypes = [(''a'', TNumber), (''b'', TNumber)],
      summary = \<lparr>totalRows = 100, totalColumns = 2, missingValues = 12,
                  numericColumns = [''a'', ''b''], textColumns = [], dateColumns = []\<rparr>\<rparr>"

text \<open>Ten rows of one column, the values 1 to 9 and 100.\<close>

definition demo10 :: ParsedData where
  "demo10 =
     \<lparr>headers = [''v''],
      rows = map (\<lambda>x. [(''v'', CNum (Fin x))]) [1, 2, 3, 4, 5, 6, 7, 8, 9, 100],
      rowCount = 10,
      columnTypes = [(''v'', TNumber)],
      summary = \<lparr>totalRows = 10, totalColumns = 1, missingValues = 0,
                  numericColumns = [''v''], textColumns = [], dateColumns = []\<rparr>\<rparr>"

text \<open>Twelve rows of one column, the values 1 to 12.\<close>

definition demo12 :: ParsedData where
  "demo12 =
     \<lparr>headers = [''v''],
      rows = map (\<lambda>x. [(''v'', CNum (Fin x))]) [1, 2, 3, 4, 5, 6, 7, 8, 9, 10, 11, 12],
      rowCount = 12,
      columnTypes = [(''v'', TNumber)],
      summary = \<lparr>totalRows = 12, totalColumns = 1, missingValues = 0,
                  numericColumns = [''v''], textColumns = [], dateColumns = []\<rparr>\<rparr>"

text \<open>
  A date parser for the examples: it accepts the date-only form \<open>YYYY-MM-DD\<close> with a
  month from 01 to 12 and a day from 01 to 31, which every implementation of the language
  accepts, and nothing else. The examples hold no other date-like string.
\<close>

definition date_only_form :: "string \<Rightarrow> bool" where
  "date_only_form s =
     (length s = 10 \<and> list_all is_digit (take 4 s) \<and> s ! 4 = CHR ''-''
      \<and> list_all is_digit (take 2 (drop 5 s)) \<and> s ! 7 = CHR ''-''
      \<and> list_all is_digit (drop 8 s)
      \<and> 1 \<le> decimal_value (take 2 (drop 5 s)) \<and> decimal_value (take 2 (drop 5 s)) \<le> 12
      \<and> 1 \<le> decimal_value (drop 8 s) \<and> decimal_value (drop 8 s) \<le> 31)"







section \<open>Concrete surroundings\<close>

text \<open>
  A parser for the examples: the four texts it accepts parse as \<open>JSON.parse\<close> parses
  them. The examples hand it no other JSON text.
\<close>

definition literal_parse :: "string \<Rightarrow> json option" where
  "literal_parse s =
     (if s = ''null'' then Some JNull
      else if s = ''true'' then Some (JBool True)
      else if s = ''false'' then Some (JBool False)
      else if s = ''{}'' then Some (JObj [])
      else None)"

text \<open>A serializer for the examples; no example depends on the text it produces.\<close>

definition row_count_only :: "Digest \<Rightarrow> string" where
  "row_count_only g = show_nat (s_rowCount (schema g))"

text \<open>A browser with no API key in its environment.\<close>

definition offline_runtime :: Runtime where
  "offline_runtime =
     \<lparr>has_window = True, api_key = None, import_sdk = None, now_start = 1000,
      now_end = 1250, json_parse = literal_parse, json_stringify = row_count_only\<rparr>"




section \<open>The example datasets are datasets of the ingestion\<close>

text \<open>Each of them is what \<open>analyzeData\<close> makes of its own rows.\<close>

lemma demo15_ingested: "analyzeData date_only_form (rows demo15) = Inr demo15"
  by code_simp

lemma demo30_ingested: "analyzeData date_only_form (rows demo30) = Inr demo30"
  by code_simp

lemma demo10_ingested: "analyzeData date_only_form (rows demo10) = Inr demo10"
  by code_simp

lemma demo12_ingested: "analyzeData date_only_form (rows demo12) = Inr demo12"
  by code_simp

lemma demo100_ingested: "analyzeData date_only_form (rows demo100) = Inr demo100"
  by code_simp

section \<open>Properties of the heuristic insight engine\<close>

lemma over_tenth_code:
  "js_gt (Fin (of_nat (missingValues (summary d))))
     (js_mul (js_mul (Fin (of_nat (rowCount d))) (Fin (of_nat (length (headers d)))))
        (Fin (1 / 10)))
   = over_tenth_missing d"
  by (simp add: js_gt_def over_tenth_missing_def)

lemma quality_adjusted_eq:
  "quality_adjusted d =
     (spec_base_confidence d,
      (if rowCount d < 20 then [''Small sample size may affect reliability''] else [])
      @ (if over_tenth_missing d then [''High percentage of missing values detected'']
         else []))"
  unfolding quality_adjusted_def adjust_missing_def adjust_sample_def over_tenth_code
  by (simp add: spec_base_confidence_def)

text \<open>The threshold in whole numbers: more than a tenth of the cells.\<close>

lemma over_tenth_nat:
  "over_tenth_missing d = (rowCount d * length (headers d) < 10 * missingValues (summary d))"
proof -
  have "over_tenth_missing d =
      ((of_nat (rowCount d * length (headers d)) :: rat)
         < of_nat (10 * missingValues (summary d)))"
    unfolding over_tenth_missing_def by (simp add: field_simps)
  then show ?thesis by (simp only: of_nat_less_iff)
qed

lemma mock_confidence: "i_confidence (mock_insight m q d) = fst (quality_adjusted d)"
  by (simp add: mock_insight_def split: prod.splits)

lemma mock_patterns:
  "patterns (mock_insight m q d) = fst (snd (select_pattern q d (quality_adjusted d)))"
  by (simp add: mock_insight_def split: prod.splits)

lemma mock_warnings:
  "warnings_list (mock_insight m q d) = snd (snd (select_pattern q d (quality_adjusted d)))"
  by (simp add: mock_insight_def warnings_list_def split: prod.splits)

lemma mock_suggested:
  "suggestedViz (mock_insight m q d) = first_visualization_type (patterns (mock_insight m q d))"
  by (simp add: mock_insight_def split: prod.splits)

lemma mock_model: "modelUsed (metadata (mock_insight m q d)) = Some m"
  by (simp add: mock_insight_def split: prod.splits)

text \<open>
  C2. The local heuristic produces exactly one pattern, that of the first branch whose
  condition holds, in the order trend (trend intent, at least one numeric column, a line
  chart), correlation (correlation intent, at least two numeric columns, the base
  confidence less 10, a scatter plot), distribution (distribution intent, at least one
  numeric column, a histogram), and otherwise a comparison pattern with the base
  confidence less 20, no visualization and the warning that the question could be more
  specific. The suggested visualization is that of the pattern, absent when the pattern
  has none.
\<close>

theorem pattern_selection_priority:
  "(let r = getMockResponse q d;
        base = fst (quality_adjusted d);
        nc = numericColumns (summary d);
        vis = (\<lambda>p. map_option v_type (p_visualization p));
        hint = ''Question could be more specific for better insights''
    in (\<exists>p. patterns r = [p]
          \<and> suggestedViz r = vis p
          \<and> (if isTrend q \<and> 0 < length nc
              then p_type p = Trend \<and> p_confidence p = base \<and> vis p = Some Line
                \<and> hint \<notin> set (warnings_list r)
              else if isCorrelation q \<and> 2 \<le> length nc
              then p_type p = Correlation \<and> p_confidence p = base - 10
                \<and> vis p = Some Scatter \<and> hint \<notin> set (warnings_list r)
              else if isDistribution q \<and> 0 < length nc
              then p_type p = Distribution \<and> p_confidence p = base
                \<and> vis p = Some Histogram \<and> hint \<notin> set (warnings_list r)
              else p_type p = Comparison \<and> p_confidence p = base - 20
                \<and> p_visualization p = None \<and> hint \<in> set (warnings_list r))))"
  unfolding getMockResponse_def Let_def mock_patterns mock_warnings mock_suggested
    quality_adjusted_eq
  by (auto simp add: select_pattern_def Let_def first_visualization_type_def)

text \<open>
  A question about how one column affects another, on thirty rows of two numeric
  columns: the correlation branch, ten below the base confidence of 60.
\<close>

theorem pattern_selection_priority_witness:
  "\<not> isTrend ''How does price affect sales?''
   \<and> isCorrelation ''How does price affect sales?''
   \<and> (\<exists>p. patterns (getMockResponse ''How does price affect sales?'' demo30) = [p]
         \<and> suggestedViz (getMockResponse ''How does price affect sales?'' demo30)
             = Some Scatter
         \<and> p_type p = Correlation \<and> p_confidence p = 50)"
proof -
  have a: "\<not> isTrend ''How does price affect sales?''" by code_simp
  have b: "isCorrelation ''How does price affect sales?''" by code_simp
  have c: "numericColumns (summary demo30) = [''price'', ''sales'']"
    by (simp add: demo30_def)
  have e: "over_tenth_missing demo30"
    by (simp add: over_tenth_missing_def demo30_def)
  have f: "fst (quality_adjusted demo30) = 60"
    by (simp add: quality_adjusted_eq spec_base_confidence_def e) (simp add: demo30_def)
  from pattern_selection_priority [of "''How does price affect sales?''" demo30]
  show ?thesis unfolding Let_def using a b c f by auto
qed

text \<open>
  C3. The base confidence starts at 75. It loses 20, and the insight carries the
  small-sample warning, exactly when there are fewer than 20 rows; it loses a further
  15, and the insight carries the missing-values warning, exactly when the missing
  values exceed a tenth of the cells (rows times headers). In particular, at 15 rows
  with the missing values at or below that threshold, a trend question over a dataset
  with a numeric column gives one trend pattern of confidence 55 and the small-sample
  warning.
\<close>

theorem confidence_arithmetic:
  "fst (quality_adjusted d) = spec_base_confidence d
   \<and> (''Small sample size may affect reliability'' \<in> set (warnings_list (getMockResponse q d))
        \<longleftrightarrow> rowCount d < 20)
   \<and> (''High percentage of missing values detected''
          \<in> set (warnings_list (getMockResponse q d))
        \<longleftrightarrow> over_tenth_missing d)
   \<and> (rowCount d = 15 \<and> \<not> over_tenth_missing d \<and> isTrend q
        \<and> 0 < length (numericColumns (summary d))
        \<longrightarrow> (\<exists>p. patterns (getMockResponse q d) = [p] \<and> p_type p = Trend
                  \<and> p_confidence p = 55)
            \<and> ''Small sample size may affect reliability''
                 \<in> set (warnings_list (getMockResponse q d)))"
  unfolding getMockResponse_def mock_patterns mock_warnings quality_adjusted_eq
  by (simp add: select_pattern_def Let_def spec_base_confidence_def)

theorem confidence_arithmetic_witness:
  "rowCount demo15 = 15 \<and> \<not> over_tenth_missing demo15 \<and> isTrend ''What is the trend?''
   \<and> 0 < length (numericColumns (summary demo15))
   \<and> (\<exists>p. patterns (getMockResponse ''What is the trend?'' demo15) = [p]
         \<and> p_type p = Trend \<and> p_confidence p = 55)
   \<and> ''Small sample size may affect reliability''
        \<in> set (warnings_list (getMockResponse ''What is the trend?'' demo15))"
proof -
  have a: "isTrend ''What is the trend?''" by code_simp
  have b: "\<not> over_tenth_missing demo15"
    by (simp add: over_tenth_missing_def demo15_def)
  have c: "rowCount demo15 = 15" "0 < length (numericColumns (summary demo15))"
    by (simp_all add: demo15_def)
  from confidence_arithmetic [of demo15 "''What is the trend?''"] a b c
  show ?thesis by blast
qed

text \<open>
  C10. In every branch the confidence of the insight itself is the base confidence: 75
  less the small-sample and missing-value deductions. What a branch subtracts (10 for
  the correlation, 20 for the comparison fallback) is subtracted from the confidence of
  its pattern only. The same holds of the earlier, mock-only service.
\<close>

theorem insight_confidence_is_base:
  "i_confidence (getMockResponse q d) = spec_base_confidence d
   \<and> i_confidence (queryAI_mock q d) = spec_base_confidence d
   \<and> map p_confidence (patterns (getMockResponse q d))
       = [spec_base_confidence d - branch_delta q d]
   \<and> map p_confidence (patterns (queryAI_mock q d))
       = [spec_base_confidence d - branch_delta q d]"
  unfolding getMockResponse_def queryAI_mock_def mock_confidence mock_patterns
    quality_adjusted_eq
  by (auto simp add: select_pattern_def Let_def branch_delta_def)

theorem insight_confidence_is_base_witness:
  "i_confidence (getMockResponse ''How does price affect sales?'' demo30) = 60
   \<and> map p_confidence (patterns (getMockResponse ''How does price affect sales?'' demo30))
       = [50]"
proof -
  have a: "\<not> isTrend ''How does price affect sales?''" by code_simp
  have b: "isCorrelation ''How does price affect sales?''" by code_simp
  have c: "numericColumns (summary demo30) = [''price'', ''sales'']"
    by (simp add: demo30_def)
  have e: "over_tenth_missing demo30"
    by (simp add: over_tenth_missing_def demo30_def)
  have f: "spec_base_confidence demo30 = 60"
    by (simp add: spec_base_confidence_def e) (simp add: demo30_def)
  have g: "branch_delta ''How does price affect sales?'' demo30 = 10"
    by (simp add: branch_delta_def a b c)
  from insight_confidence_is_base [of "''How does price affect sales?''" demo30]
  show ?thesis by (simp add: f g)
qed

section \<open>Properties of the quality assessor\<close>









lemma quarter_lt: "0 < n \<Longrightarrow> n div 4 < (n::nat)" by simp
lemma three_quarter_lt: "0 < n \<Longrightarrow> (3 * n) div 4 < (n::nat)" by simp






lemma ratio_fin:
  "0 < n \<Longrightarrow> js_div (Fin (of_nat k)) (Fin (of_nat n)) = Fin (of_nat k / of_nat n)"
  by simp
















lemma analyzeData_fields:
  assumes "analyzeData parses raw = Inr d"
  shows "raw \<noteq> []"
    and "headers d = map fst (raw ! 0)"
    and "rows d = raw"
    and "rowCount d = length raw"
    and "columnTypes d = detect_types parses raw (headers d)"
    and "totalRows (summary d) = length raw"
    and "totalColumns (summary d) = length (headers d)"
    and "missingValues (summary d) = count_missing raw (headers d)"
    and "numericColumns (summary d)
           = filter (\<lambda>h. map_of (columnTypes d) h = Some TNumber) (headers d)"
    and "textColumns (summary d)
           = filter (\<lambda>h. map_of (columnTypes d) h = Some TString) (headers d)"
    and "dateColumns (summary d)
           = filter (\<lambda>h. map_of (columnTypes d) h = Some TDate) (headers d)"
  using assms by (auto simp add: analyzeData_def Let_def split: if_splits)







lemma js_le_total: "x \<noteq> NaN \<Longrightarrow> y \<noteq> NaN \<Longrightarrow> \<not> js_lt x y \<Longrightarrow> js_le y x"
  by (simp add: js_le_def)









lemma demo_sort: "sort [1, 2, 3, 4, 5, 6, 7, 8, 9, 100 :: rat] = [1, 2, 3, 4, 5, 6, 7, 8, 9, 100]"
  by simp














section \<open>Properties of the ingestion and of the context digest\<close>

lemma last_five: "drop (length xs - 5) xs = rev (take 5 (rev xs))"
  by (simp add: rev_take)

text \<open>
  C8. The context digest holds the schema as the pairs of name and type in header order,
  the row count and the summary, and a row sample: the first five rows followed by the
  last five exactly when there are more than ten rows, the first five rows alone
  otherwise, which is every row when there are at most five. (The row count of a dataset
  is the number of its rows.)
\<close>

theorem context_digest_contents:
  "(rowCount d = length (rows d) \<longrightarrow>
      map c_name (s_columns (schema (context_digest d))) = headers d
      \<and> map c_type (s_columns (schema (context_digest d)))
          = map (map_of (columnTypes d)) (headers d)
      \<and> s_rowCount (schema (context_digest d)) = rowCount d
      \<and> s_summary (schema (context_digest d)) = summary d
      \<and> sampleRows (context_digest d)
          = (if 10 < rowCount d then take 5 (rows d) @ rev (take 5 (rev (rows d)))
             else take 5 (rows d))
      \<and> (rowCount d \<le> 5 \<longrightarrow> sampleRows (context_digest d) = rows d)
      \<and> formatDataForAI stringify d = stringify (context_digest d))
   \<and> (analyzeData parses raw = Inr d \<longrightarrow> rowCount d = length (rows d))"
proof (intro conjI impI)
  assume a: "rowCount d = length (rows d)"
  show "sampleRows (context_digest d)
      = (if 10 < rowCount d then take 5 (rows d) @ rev (take 5 (rev (rows d)))
         else take 5 (rows d))"
    using a by (simp add: context_digest_def last_five)
  assume "rowCount d \<le> 5"
  with a show "sampleRows (context_digest d) = rows d"
    by (simp add: context_digest_def)
next
  assume "analyzeData parses raw = Inr d"
  then show "rowCount d = length (rows d)"
    by (simp add: analyzeData_fields(3,4))
qed (simp_all add: context_digest_def formatDataForAI_def o_def)

theorem context_digest_contents_witness:
  "rowCount demo12 = length (rows demo12)
   \<and> map c_name (s_columns (schema (context_digest demo12))) = [''v'']
   \<and> sampleRows (context_digest demo12)
       = map (\<lambda>x. [(''v'', CNum (Fin x))]) [1, 2, 3, 4, 5, 8, 9, 10, 11, 12]"
proof -
  have a: "rowCount demo12 = length (rows demo12)" by (simp add: demo12_def)
  have b: "10 < rowCount demo12" "headers demo12 = [''v'']" by (simp_all add: demo12_def)
  have c: "take 5 (rows demo12) @ rev (take 5 (rev (rows demo12)))
      = map (\<lambda>x. [(''v'', CNum (Fin x))]) [1, 2, 3, 4, 5, 8, 9, 10, 11, 12]"
    by (simp add: demo12_def)
  from context_digest_contents [of demo12] a b c show ?thesis by simp
qed























section \<open>Properties of the two-tier resolution\<close>

lemma select_pattern_one: "length (fst (snd (select_pattern q d st))) = 1"
  by (cases st) (simp add: select_pattern_def Let_def)

lemma getGeminiAI_None_iff:
  "getGeminiAI rt = None \<longleftrightarrow>
     (\<not> has_window rt \<or> api_key rt = None \<or> api_key rt = Some [] \<or> import_sdk rt = None
      \<or> (\<exists>ctor k e. import_sdk rt = Some ctor \<and> api_key rt = Some k \<and> ctor k = Inl e))"
  by (auto simp add: getGeminiAI_def split: option.splits sum.splits)

lemma queryAI_total: "\<exists>r. queryAI rt q d = Inr r"
  by (simp add: queryAI_def try_catch_def and_then_def split: option.splits sum.splits)

lemma queryAI_local: "getGeminiAI rt = None \<Longrightarrow> queryAI rt q d = Inr (Insight (getMockResponse q d))"
  by (simp add: queryAI_def)

lemma queryAI_remote_error:
  "getGeminiAI rt = Some genAI \<Longrightarrow>
   genAI ''gemini-1.5-pro'' (generatePrompt q (formatDataForAI (json_stringify rt) d)) = Inl e \<Longrightarrow>
   queryAI rt q d = Inr (Insight (getMockResponse q d))"
  by (simp add: queryAI_def try_catch_def and_then_def)




text \<open>
  C1. When no remote provider is configured (the code does not run in a browser, there
  is no API key, or the client cannot be created), \<open>queryAI\<close> does not throw: it
  returns the insight of the local heuristic, whose model identifier is
  \<open>mock-response\<close>, whose confidence is the base confidence and which carries the one
  pattern of the branch taken. (No call of \<open>queryAI\<close> throws at all.)
\<close>

theorem local_fallback_without_provider:
  "((\<not> has_window rt \<or> api_key rt = None \<or> api_key rt = Some [] \<or> import_sdk rt = None
      \<or> (\<exists>ctor k e. import_sdk rt = Some ctor \<and> api_key rt = Some k \<and> ctor k = Inl e))
     \<longrightarrow> getGeminiAI rt = None
         \<and> queryAI rt q d = Inr (Insight (getMockResponse q d)))
   \<and> modelUsed (metadata (getMockResponse q d)) = Some ''mock-response''
   \<and> i_confidence (getMockResponse q d) = spec_base_confidence d
   \<and> length (patterns (getMockResponse q d)) = 1
   \<and> (\<exists>r. queryAI rt q d = Inr r)"
proof (intro conjI impI)
  assume a: "\<not> has_window rt \<or> api_key rt = None \<or> api_key rt = Some [] \<or> import_sdk rt = None
      \<or> (\<exists>ctor k e. import_sdk rt = Some ctor \<and> api_key rt = Some k \<and> ctor k = Inl e)"
  then show n: "getGeminiAI rt = None" by (simp only: getGeminiAI_None_iff)
  then show "queryAI rt q d = Inr (Insight (getMockResponse q d))" by (rule queryAI_local)
next
  show "modelUsed (metadata (getMockResponse q d)) = Some ''mock-response''"
    by (simp add: getMockResponse_def mock_model)
  show "i_confidence (getMockResponse q d) = spec_base_confidence d"
    by (simp add: getMockResponse_def mock_confidence quality_adjusted_eq)
  show "length (patterns (getMockResponse q d)) = 1"
    by (simp only: getMockResponse_def mock_patterns select_pattern_one)
  show "\<exists>r. queryAI rt q d = Inr r" by (rule queryAI_total)
qed

theorem local_fallback_without_provider_witness:
  "api_key offline_runtime = None
   \<and> queryAI offline_runtime ''What is the trend?'' demo15
       = Inr (Insight (getMockResponse ''What is the trend?'' demo15))
   \<and> modelUsed (metadata (getMockResponse ''What is the trend?'' demo15))
       = Some ''mock-response''
   \<and> i_confidence (getMockResponse ''What is the trend?'' demo15) = 55"
proof -
  have a: "api_key offline_runtime = None" by (simp add: offline_runtime_def)
  have b: "spec_base_confidence demo15 = 55"
    by (simp add: spec_base_confidence_def over_tenth_missing_def demo15_def)
  from local_fallback_without_provider [of offline_runtime "''What is the trend?''" demo15] a b
  show ?thesis by simp
qed



end
